theory Spec2Isabelle
  imports Main "HOL-Library.AList" "HOL-Library.Char_ord" "HOL-Library.List_Lexorder"
begin

section \<open>Values, errors and the collaborators of the wallet helpers\<close>

text \<open>
  The repository is a thin layer of TypeScript over three collaborators that are not part
  of it: Node's \<open>fs\<close> module, the built-in \<open>JSON\<close> object and the \<open>ethers\<close> SDK.
  The file system is modelled concretely (a table from path strings to nodes); \<open>JSON\<close>
  and \<open>ethers\<close> are taken as parameters, records of functions, so that every theorem
  below holds for whatever these collaborators compute.
\<close>

datatype error =
    ENOENT | ENOTDIR | EISDIR | EEXIST | EINVAL | ENAMETOOLONG
  | SyntaxError
  | TypeError
  | SdkError string
  | Error string

text \<open>
  A JavaScript value as \<open>JSON.parse\<close> returns it or as an object literal builds it.
  Of a number only its being zero is observed by the code (truthiness), so it is an
  integer here. An object is the list of its own properties in insertion order.
\<close>

datatype jsval =
    JUndefined
  | JNull
  | JBool bool
  | JNum int
  | JStr string
  | JArr "jsval list"
  | JObj "(string \<times> jsval) list"

text \<open>
  \<open>v.k\<close> for a property name \<open>k\<close> that no prototype defines (as \<open>phrase\<close>,
  \<open>gasPrice\<close>): a \<open>TypeError\<close> on \<open>null\<close> and \<open>undefined\<close>, the own property of an
  object, \<open>undefined\<close> otherwise.
\<close>

fun get_prop :: "jsval \<Rightarrow> string \<Rightarrow> error + jsval" where
  "get_prop JUndefined k = Inl TypeError"
| "get_prop JNull k = Inl TypeError"
| "get_prop (JObj kvs) k = (case map_of kvs k of None \<Rightarrow> Inr JUndefined | Some v \<Rightarrow> Inr v)"
| "get_prop v k = Inr JUndefined"

text \<open>The condition of \<open>if (v)\<close>.\<close>

fun truthy :: "jsval \<Rightarrow> bool" where
  "truthy JUndefined = False"
| "truthy JNull = False"
| "truthy (JBool b) = b"
| "truthy (JNum n) = (n \<noteq> 0)"
| "truthy (JStr s) = (s \<noteq> [])"
| "truthy (JArr vs) = True"
| "truthy (JObj kvs) = True"

text \<open>\<open>s.endsWith(t)\<close>.\<close>

definition endsWith :: "string \<Rightarrow> string \<Rightarrow> bool" where
  "endsWith s t = (length t \<le> length s \<and> drop (length s - length t) s = t)"

record js_runtime =
  JSON_parse :: "string \<Rightarrow> jsval option"
  JSON_stringify :: "jsval \<Rightarrow> string"

text \<open>
  \<open>JSON_parse rt s = None\<close> stands for the \<open>SyntaxError\<close> that \<open>JSON.parse\<close> throws on
  text that is not JSON. \<open>JSON_stringify rt v\<close> is \<open>JSON.stringify(v, null, 2)\<close>.
\<close>

subsection \<open>Wallets and the SDK\<close>

text \<open>
  What the code reads of an \<open>ethers.HDNodeWallet\<close>: \<open>address\<close>, \<open>privateKey\<close>,
  \<open>publicKey\<close> and \<open>mnemonic?.phrase\<close> (\<open>mnemonic\<close> is \<open>None\<close> when the wallet has
  no mnemonic, else the phrase of the mnemonic).
\<close>

record wallet =
  address :: string
  privateKey :: string
  publicKey :: string
  mnemonic :: "string option"

text \<open>
  The SDK. \<open>'r\<close> is the state of its entropy source, \<open>'n\<close> the state of the network
  behind a provider; the first argument of \<open>getTransactionCount\<close> and of \<open>getFeeData\<close>
  is the provider, which is its URL. \<open>fromPhrase\<close> receives whatever value the parsed
  record holds under \<open>phrase\<close>: the annotation \<open>phrase: string\<close> is erased at run time.
  A call that throws or a promise that rejects returns \<open>Inl\<close>.
\<close>

record ('r, 'n) ethers =
  createRandom :: "'r \<Rightarrow> wallet \<times> 'r"
  fromPhrase :: "jsval \<Rightarrow> error + wallet"
  parseEther :: "string \<Rightarrow> error + jsval"
  getTransactionCount :: "string \<Rightarrow> jsval \<Rightarrow> string \<Rightarrow> 'n \<Rightarrow> (error + jsval) \<times> 'n"
  getFeeData :: "string \<Rightarrow> 'n \<Rightarrow> (error + jsval) \<times> 'n"
  sendTransaction :: "wallet \<Rightarrow> jsval \<Rightarrow> 'n \<Rightarrow> (error + jsval) \<times> 'n"
  wait :: "jsval \<Rightarrow> 'n \<Rightarrow> (error + jsval) \<times> 'n"

subsection \<open>The file system\<close>

text \<open>
  A table from paths to nodes. Paths are the strings the code builds, compared as they
  are: no normalisation of \<open>.\<close>, \<open>..\<close> or repeated and trailing slashes, no links, no
  permissions, no limit on space. Nothing exists at the empty path, at a path with a
  null character or at a path of 4096 characters or more, whatever the table holds for
  it, and no entry is created under a name of more than 255 characters. The entries of
  a directory \<open>d\<close> are the paths \<open>d/n\<close> of the table with \<open>n\<close> non-empty and free of
  slashes.
\<close>

datatype node = Dir | File string

type_synonym filesystem = "(string \<times> node) list"

definition valid_path :: "string \<Rightarrow> bool" where
  "valid_path p = (p \<noteq> [] \<and> CHR 0x00 \<notin> set p \<and> length p < 4096)"

text \<open>The error of an operation on a path at which nothing exists.\<close>

definition path_error :: "string \<Rightarrow> error" where
  "path_error p =
     (if p = [] then ENOENT
      else if CHR 0x00 \<in> set p then EINVAL
      else if 4096 \<le> length p then ENAMETOOLONG
      else ENOENT)"

text \<open>The last component of a path.\<close>

definition basename :: "string \<Rightarrow> string" where
  "basename p = rev (takeWhile (\<lambda>c. c \<noteq> CHR ''/'') (rev p))"

definition node_at :: "filesystem \<Rightarrow> string \<Rightarrow> node option" where
  "node_at fs p = (if valid_path p then map_of fs p else None)"

text \<open>
  The parent of a path that contains a slash: what precedes its last slash, and the root
  when nothing does.
\<close>

definition dirname :: "string \<Rightarrow> string" where
  "dirname p =
     (let d = rev (tl (dropWhile (\<lambda>c. c \<noteq> CHR ''/'') (rev p)))
      in if d = [] then ''/'' else d)"

text \<open>
  The error of an operation that creates an entry at \<open>p\<close>, from \<open>p\<close> and its parent.
  A path without a slash names an entry of the working directory, which exists.
\<close>

definition parent_error :: "filesystem \<Rightarrow> string \<Rightarrow> error option" where
  "parent_error fs p =
     (if \<not> valid_path p then Some (path_error p)
      else if 255 < length (basename p) then Some ENAMETOOLONG
      else if CHR ''/'' \<notin> set p then None
      else case node_at fs (dirname p) of
             None \<Rightarrow> Some ENOENT
           | Some (File c) \<Rightarrow> Some ENOTDIR
           | Some Dir \<Rightarrow> None)"

definition child_name :: "string \<Rightarrow> string \<Rightarrow> string option" where
  "child_name d p =
     (let k = length d + 1; n = drop k p
      in if take k p = d @ ''/'' \<and> n \<noteq> [] \<and> CHR ''/'' \<notin> set n then Some n else None)"

definition existsSync :: "filesystem \<Rightarrow> string \<Rightarrow> bool" where
  "existsSync fs p = (node_at fs p \<noteq> None)"

definition mkdirSync :: "filesystem \<Rightarrow> string \<Rightarrow> error + filesystem" where
  "mkdirSync fs p =
     (case node_at fs p of
        Some n \<Rightarrow> Inl EEXIST
      | None \<Rightarrow> (case parent_error fs p of Some e \<Rightarrow> Inl e | None \<Rightarrow> Inr (AList.update p Dir fs)))"

definition writeFileSync :: "filesystem \<Rightarrow> string \<Rightarrow> string \<Rightarrow> error + filesystem" where
  "writeFileSync fs p c =
     (case node_at fs p of
        Some Dir \<Rightarrow> Inl EISDIR
      | Some (File old) \<Rightarrow> Inr (AList.update p (File c) fs)
      | None \<Rightarrow> (case parent_error fs p of
                   Some e \<Rightarrow> Inl e
                 | None \<Rightarrow> Inr (AList.update p (File c) fs)))"

definition readFileSync :: "filesystem \<Rightarrow> string \<Rightarrow> error + string" where
  "readFileSync fs p =
     (case node_at fs p of
        None \<Rightarrow> Inl (path_error p)
      | Some Dir \<Rightarrow> Inl EISDIR
      | Some (File c) \<Rightarrow> Inr c)"

text \<open>The names of the entries of a directory, each once, sorted as Node returns them.\<close>

definition readdirSync :: "filesystem \<Rightarrow> string \<Rightarrow> error + string list" where
  "readdirSync fs d =
     (case node_at fs d of
        None \<Rightarrow> Inl (path_error d)
      | Some (File c) \<Rightarrow> Inl ENOTDIR
      | Some Dir \<Rightarrow> Inr (sort (remdups (List.map_filter (\<lambda>(p, n). child_name d p) fs))))"

section \<open>wallet/wallets.ts\<close>

text \<open>
  A console line of \<open>console.error(msg + walletFilePath, error)\<close>: the path and the
  error caught; the message before the path is a constant.
\<close>

type_synonym console = "(string \<times> error) list"

definition default_walletsDir :: string where
  "default_walletsDir = ''./wallets''"

text \<open>
  \<open>createWallets\<close>: the loop calls \<open>createRandom\<close> once for each \<open>i < walletCount\<close>, so a
  count below one gives no wallet. The count is an integer here.
\<close>

fun createWallets_loop :: "('r, 'n) ethers \<Rightarrow> nat \<Rightarrow> 'r \<Rightarrow> wallet list \<Rightarrow> wallet list \<times> 'r" where
  "createWallets_loop sdk 0 r wallets = (wallets, r)"
| "createWallets_loop sdk (Suc k) r wallets =
     (let (wallet, r') = createRandom sdk r in createWallets_loop sdk k r' (wallets @ [wallet]))"

definition createWallets :: "('r, 'n) ethers \<Rightarrow> int \<Rightarrow> 'r \<Rightarrow> wallet list \<times> 'r" where
  "createWallets sdk walletCount r = createWallets_loop sdk (nat walletCount) r []"

definition getWalletData :: "wallet \<Rightarrow> jsval" where
  "getWalletData wallet =
     JObj [(''address'', JStr (address wallet)),
           (''privateKey'', JStr (privateKey wallet)),
           (''publicKey'', JStr (publicKey wallet)),
           (''phrase'', case mnemonic wallet of None \<Rightarrow> JUndefined | Some ph \<Rightarrow> JStr ph)]"

text \<open>
  \<open>saveWallets\<close>. The callback of \<open>wallets.forEach\<close> is \<open>save_wallet\<close>; an exception of
  \<open>writeFileSync\<close> ends the loop and leaves the files already written. The result is
  the exception, if any, and the file system after the call.
\<close>

definition save_wallet :: "js_runtime \<Rightarrow> string \<Rightarrow> wallet \<Rightarrow> filesystem \<Rightarrow> error + filesystem" where
  "save_wallet rt walletsDir wallet fs =
     (let walletData =
            JObj [(''address'', JStr (address wallet)),
                  (''privateKey'', JStr (privateKey wallet)),
                  (''publicKey'', JStr (publicKey wallet)),
                  (''phrase'', case mnemonic wallet of None \<Rightarrow> JUndefined | Some ph \<Rightarrow> JStr ph)];
          walletJson = JSON_stringify rt walletData;
          walletFilePath = walletsDir @ ''/'' @ address wallet @ ''.json''
      in writeFileSync fs walletFilePath walletJson)"

fun save_forEach :: "js_runtime \<Rightarrow> string \<Rightarrow> wallet list \<Rightarrow> filesystem \<Rightarrow> error option \<times> filesystem" where
  "save_forEach rt walletsDir [] fs = (None, fs)"
| "save_forEach rt walletsDir (wallet # wallets) fs =
     (case save_wallet rt walletsDir wallet fs of
        Inl e \<Rightarrow> (Some e, fs)
      | Inr fs' \<Rightarrow> save_forEach rt walletsDir wallets fs')"

definition saveWallets :: "js_runtime \<Rightarrow> wallet list \<Rightarrow> string \<Rightarrow> filesystem \<Rightarrow> error option \<times> filesystem" where
  "saveWallets rt wallets walletsDir fs =
     (if \<not> existsSync fs walletsDir
      then (case mkdirSync fs walletsDir of
              Inl e \<Rightarrow> (Some e, fs)
            | Inr fs' \<Rightarrow> save_forEach rt walletsDir wallets fs')
      else save_forEach rt walletsDir wallets fs)"

text \<open>
  The statements inside \<open>try\<close>, the same in \<open>loadWallets\<close> and in \<open>loadWallet\<close>: read the
  file, parse it, and recover the wallet from \<open>walletData.phrase\<close> when that is truthy.
  \<open>Inl e\<close> is the exception the \<open>catch\<close> receives, \<open>Inr None\<close> the end of the block
  without a wallet.
\<close>

definition try_recover :: "('r, 'n) ethers \<Rightarrow> js_runtime \<Rightarrow> filesystem \<Rightarrow> string \<Rightarrow> error + wallet option" where
  "try_recover sdk rt fs walletFilePath =
     (case readFileSync fs walletFilePath of
        Inl e \<Rightarrow> Inl e
      | Inr walletJson \<Rightarrow>
          (case JSON_parse rt walletJson of
             None \<Rightarrow> Inl SyntaxError
           | Some walletData \<Rightarrow>
               (case get_prop walletData ''phrase'' of
                  Inl e \<Rightarrow> Inl e
                | Inr ph \<Rightarrow>
                    if truthy ph
                    then (case fromPhrase sdk ph of Inl e \<Rightarrow> Inl e | Inr wallet \<Rightarrow> Inr (Some wallet))
                    else Inr None)))"

text \<open>The callback of \<open>walletFiles.forEach\<close>, on the wallets and the console so far.\<close>

definition load_file :: "('r, 'n) ethers \<Rightarrow> js_runtime \<Rightarrow> filesystem \<Rightarrow> string \<Rightarrow> string \<Rightarrow>
    wallet list \<times> console \<Rightarrow> wallet list \<times> console" where
  "load_file sdk rt fs walletsDir walletFile acc =
     (if \<not> endsWith walletFile ''.json'' then acc
      else let walletFilePath = walletsDir @ ''/'' @ walletFile
           in case try_recover sdk rt fs walletFilePath of
                Inl e \<Rightarrow> (fst acc, snd acc @ [(walletFilePath, e)])
              | Inr None \<Rightarrow> acc
              | Inr (Some wallet) \<Rightarrow> (fst acc @ [wallet], snd acc))"

fun load_forEach :: "('r, 'n) ethers \<Rightarrow> js_runtime \<Rightarrow> filesystem \<Rightarrow> string \<Rightarrow> string list \<Rightarrow>
    wallet list \<times> console \<Rightarrow> wallet list \<times> console" where
  "load_forEach sdk rt fs walletsDir [] acc = acc"
| "load_forEach sdk rt fs walletsDir (walletFile # walletFiles) acc =
     load_forEach sdk rt fs walletsDir walletFiles (load_file sdk rt fs walletsDir walletFile acc)"

text \<open>
  \<open>loadWallets\<close>: \<open>readdirSync\<close> is outside every \<open>try\<close>, so its exception is the
  function's. The result is the wallets and the console lines written.
\<close>

definition loadWallets :: "('r, 'n) ethers \<Rightarrow> js_runtime \<Rightarrow> string \<Rightarrow> filesystem \<Rightarrow>
    error + wallet list \<times> console" where
  "loadWallets sdk rt walletsDir fs =
     (if \<not> existsSync fs walletsDir then Inr ([], [])
      else case readdirSync fs walletsDir of
             Inl e \<Rightarrow> Inl e
           | Inr walletFiles \<Rightarrow> Inr (load_forEach sdk rt fs walletsDir walletFiles ([], [])))"

text \<open>
  \<open>loadWallet\<close>: \<open>None\<close> is \<open>null\<close>. Every call that can throw is inside the \<open>try\<close>, so
  the function has no exception of its own.
\<close>

definition loadWallet :: "('r, 'n) ethers \<Rightarrow> js_runtime \<Rightarrow> string \<Rightarrow> string \<Rightarrow> filesystem \<Rightarrow>
    wallet option \<times> console" where
  "loadWallet sdk rt walletAddress walletsDir fs =
     (let walletFilePath = walletsDir @ ''/'' @ walletAddress @ ''.json''
      in if \<not> existsSync fs walletFilePath then (None, [])
         else case try_recover sdk rt fs walletFilePath of
                Inl e \<Rightarrow> (None, [(walletFilePath, e)])
              | Inr None \<Rightarrow> (None, [])
              | Inr (Some wallet) \<Rightarrow> (Some wallet, []))"

section \<open>provider/provider.ts and tests/test-transfer.ts\<close>

text \<open>A provider is the URL it was constructed from.\<close>

definition getProvider :: "string \<Rightarrow> string" where
  "getProvider providerUrl = providerUrl"

text \<open>\<open>process.env[k]\<close> as a value, and a value inside a template string.\<close>

definition env_value :: "(string \<Rightarrow> string option) \<Rightarrow> string \<Rightarrow> jsval" where
  "env_value env k = (case env k of None \<Rightarrow> JUndefined | Some s \<Rightarrow> JStr s)"

fun template :: "jsval \<Rightarrow> string" where
  "template (JStr s) = s"
| "template v = ''undefined''"

text \<open>
  One run of \<open>testTransfer\<close>: what the promise settles with (\<open>Inr JUndefined\<close> when the
  function runs to its end, since it has no \<open>return\<close>), the lines of \<open>console.error\<close>
  and of \<open>console.log\<close>, and the network after the run.
\<close>

record 'n run =
  returned :: "error + jsval"
  console_error :: console
  console_log :: "jsval list"
  net :: 'n

definition thrown :: "error \<Rightarrow> console \<Rightarrow> 'n \<Rightarrow> 'n run" where
  "thrown e errs n = \<lparr>returned = Inl e, console_error = errs, console_log = [], net = n\<rparr>"

text \<open>The object literal of lines 26 to 32, with the keys as the source spells them.\<close>

definition transfer_request :: "string \<Rightarrow> jsval \<Rightarrow> jsval \<Rightarrow> jsval \<Rightarrow> jsval" where
  "transfer_request recipientAddress amount nounce gasPrice =
     JObj [(''to'', JStr recipientAddress),
           (''value'', amount),
           (''nounce'', nounce),
           (''gasLimit'', JNum 21000),
           (''gasPrice'', gasPrice)]"

text \<open>
  Lines 23 to 38: the four awaited calls in their order, each on the network the call
  before it left. \<open>template\<close> is not applied to \<open>walletAddress\<close> here: the value goes to
  the provider as it is. In the object literal \<open>parseEther\<close> is evaluated before
  \<open>feeData.gasPrice\<close>.
\<close>

definition transfer_steps :: "('r, 'n) ethers \<Rightarrow> string \<Rightarrow> jsval \<Rightarrow> wallet \<Rightarrow> string \<Rightarrow>
    console \<Rightarrow> 'n \<Rightarrow> 'n run" where
  "transfer_steps sdk provider walletAddress wallet recipientAddress errs n0 =
     (let amountInEther = ''0.1''
      in case getTransactionCount sdk provider walletAddress ''pending'' n0 of
           (Inl e, n1) \<Rightarrow> thrown e errs n1
         | (Inr nounce, n1) \<Rightarrow>
             (case getFeeData sdk provider n1 of
                (Inl e, n2) \<Rightarrow> thrown e errs n2
              | (Inr feeData, n2) \<Rightarrow>
                  (case parseEther sdk amountInEther of
                     Inl e \<Rightarrow> thrown e errs n2
                   | Inr amount \<Rightarrow>
                       (case get_prop feeData ''gasPrice'' of
                          Inl e \<Rightarrow> thrown e errs n2
                        | Inr gasPrice \<Rightarrow>
                            (let tx = transfer_request recipientAddress amount nounce gasPrice
                             in case sendTransaction sdk wallet tx n2 of
                                  (Inl e, n3) \<Rightarrow> thrown e errs n3
                                | (Inr transaction, n3) \<Rightarrow>
                                    (case wait sdk transaction n3 of
                                       (Inl e, n4) \<Rightarrow> thrown e errs n4
                                     | (Inr recipt, n4) \<Rightarrow>
                                         \<lparr>returned = Inr JUndefined, console_error = errs,
                                          console_log = [recipt], net = n4\<rparr>))))))"

definition testTransfer :: "('r, 'n) ethers \<Rightarrow> js_runtime \<Rightarrow> (string \<Rightarrow> string option) \<Rightarrow>
    filesystem \<Rightarrow> 'n \<Rightarrow> 'n run" where
  "testTransfer sdk rt env fs n0 =
     (let providerUrl = env_value env ''PROVIDER_URL''
      in if \<not> truthy providerUrl then thrown (Error ''PROVIDER_URL is not defined'') [] n0
         else let provider = getProvider (template providerUrl);
                  walletAddress = env_value env ''TEST_WALLET_ADDRESS'';
                  (wallet, errs) = loadWallet sdk rt (template walletAddress) default_walletsDir fs
              in case wallet of
                   None \<Rightarrow> thrown (Error (''Wallet '' @ template walletAddress @ '' not found'')) errs n0
                 | Some wallet \<Rightarrow>
                     (let recipientAddress = env_value env ''TEST_RECIPIENT_ADDRESS''
                      in if \<not> truthy recipientAddress
                         then thrown (Error ''TEST_RECIPIENT_ADDRESS is not defined'') errs n0
                         else transfer_steps sdk provider walletAddress wallet
                                (template recipientAddress) errs n0))"

section \<open>Notions used in the statements\<close>

text \<open>
  What the SDK promises of a wallet it generated with a mnemonic (the glossary's "one
  mnemonic phrase deterministically derives a key-pair"): the wallet carries a non-empty
  phrase, and \<open>fromPhrase\<close> on that phrase derives the same address and keys.
\<close>

definition rederivable :: "('r, 'n) ethers \<Rightarrow> wallet \<Rightarrow> bool" where
  "rederivable sdk w =
     (case mnemonic w of
        None \<Rightarrow> False
      | Some ph \<Rightarrow>
          ph \<noteq> [] \<and>
          (case fromPhrase sdk (JStr ph) of
             Inl e \<Rightarrow> False
           | Inr w' \<Rightarrow> address w' = address w \<and> publicKey w' = publicKey w \<and>
                       privateKey w' = privateKey w))"

text \<open>
  The entry \<open>walletFile\<close> of \<open>walletsDir\<close> is a file that parses to an object without a
  \<open>phrase\<close> property.
\<close>

definition phraseless :: "js_runtime \<Rightarrow> filesystem \<Rightarrow> string \<Rightarrow> string \<Rightarrow> bool" where
  "phraseless rt fs walletsDir walletFile =
     (case readFileSync fs (walletsDir @ ''/'' @ walletFile) of
        Inl e \<Rightarrow> False
      | Inr c \<Rightarrow> (case JSON_parse rt c of
                   Some (JObj kvs) \<Rightarrow> map_of kvs ''phrase'' = None
                 | _ \<Rightarrow> False))"

text \<open>
  The truthy value that the entry \<open>walletFile\<close> of \<open>walletsDir\<close> holds under \<open>phrase\<close>,
  when the entry has the suffix, can be read and parses; \<open>None\<close> otherwise.
\<close>

definition record_phrase :: "js_runtime \<Rightarrow> filesystem \<Rightarrow> string \<Rightarrow> string \<Rightarrow> jsval option" where
  "record_phrase rt fs walletsDir walletFile =
     (if \<not> endsWith walletFile ''.json'' then None
      else case readFileSync fs (walletsDir @ ''/'' @ walletFile) of
             Inl e \<Rightarrow> None
           | Inr c \<Rightarrow> (case JSON_parse rt c of
                        None \<Rightarrow> None
                      | Some walletData \<Rightarrow>
                          (case get_prop walletData ''phrase'' of
                             Inl e \<Rightarrow> None
                           | Inr ph \<Rightarrow> if truthy ph then Some ph else None)))"

text \<open>The wallet the SDK derives from that value, if there is one and the SDK accepts it.\<close>

definition recovered :: "('r, 'n) ethers \<Rightarrow> js_runtime \<Rightarrow> filesystem \<Rightarrow> string \<Rightarrow> string \<Rightarrow> wallet option" where
  "recovered sdk rt fs walletsDir walletFile =
     (case record_phrase rt fs walletsDir walletFile of
        None \<Rightarrow> None
      | Some ph \<Rightarrow> (case fromPhrase sdk ph of Inl e \<Rightarrow> None | Inr wallet \<Rightarrow> Some wallet))"



text \<open>The object a node parses to, when the node is a file that parses to an object.\<close>

definition record_of :: "js_runtime \<Rightarrow> node \<Rightarrow> (string \<times> jsval) list option" where
  "record_of rt n =
     (case n of
        Dir \<Rightarrow> None
      | File c \<Rightarrow> (case JSON_parse rt c of Some (JObj kvs) \<Rightarrow> Some kvs | _ \<Rightarrow> None))"

text \<open>
  Two nodes that differ at most in what their records hold outside \<open>phrase\<close>: the same
  node, or two files that parse to objects with the same \<open>phrase\<close> property (both
  without one, or both with the same value). Two file systems with the same paths in the
  same order and such nodes at each path.
\<close>

definition same_phrase :: "js_runtime \<Rightarrow> node \<Rightarrow> node \<Rightarrow> bool" where
  "same_phrase rt n1 n2 =
     (n1 = n2 \<or>
      (case record_of rt n1 of
         None \<Rightarrow> False
       | Some kvs1 \<Rightarrow>
           (case record_of rt n2 of
              None \<Rightarrow> False
            | Some kvs2 \<Rightarrow> map_of kvs1 ''phrase'' = map_of kvs2 ''phrase'')))"

definition same_phrases :: "js_runtime \<Rightarrow> filesystem \<Rightarrow> filesystem \<Rightarrow> bool" where
  "same_phrases rt fs1 fs2 =
     list_all2 (\<lambda>e1 e2. fst e1 = fst e2 \<and> same_phrase rt (snd e1) (snd e2)) fs1 fs2"

section \<open>Sample wallets, files and collaborators\<close>

text \<open>
  A small world on which the theorems are instantiated: three wallets, an SDK that
  derives two of them from their phrases, a runtime that prints a flat record of strings
  the way \<open>JSON.stringify(v, null, 2)\<close> does and parses the texts it printed, and a
  network that answers each call and keeps the list of the calls it received. The wallets
  of this program come from \<open>createRandom\<close> and \<open>fromPhrase\<close> and the source never
  connects one to a provider; as \<open>ethers\<close> does on such a wallet, the sample SDK rejects
  \<open>sendTransaction\<close>.
\<close>

definition walletA :: wallet where
  "walletA = \<lparr>address = ''0xAAA'', privateKey = ''0xa1'', publicKey = ''0x02a1'',
              mnemonic = Some ''able acid also''\<rparr>"

definition walletB :: wallet where
  "walletB = \<lparr>address = ''0xBBB'', privateKey = ''0xb2'', publicKey = ''0x03b2'',
              mnemonic = Some ''baby bag bar''\<rparr>"

definition walletC :: wallet where
  "walletC = \<lparr>address = ''0xCCC'', privateKey = ''0xc3'', publicKey = ''0x02c3'',
              mnemonic = None\<rparr>"

text \<open>The record of \<open>walletA\<close> with another private key, and that of \<open>walletB\<close> under
  another address.\<close>

definition tamperedA :: jsval where
  "tamperedA = JObj [(''address'', JStr ''0xAAA''), (''privateKey'', JStr ''0xffff''),
                     (''publicKey'', JStr ''0x02a1''), (''phrase'', JStr ''able acid also'')]"

definition mislabelledB :: jsval where
  "mislabelledB = JObj [(''address'', JStr ''0xDDD''), (''privateKey'', JStr ''0xb2''),
                        (''publicKey'', JStr ''0x03b2''), (''phrase'', JStr ''baby bag bar'')]"

definition quoted :: "string \<Rightarrow> string" where
  "quoted s = CHR 0x22 # s @ [CHR 0x22]"

fun member_lines :: "(string \<times> jsval) list \<Rightarrow> string list" where
  "member_lines [] = []"
| "member_lines ((k, JStr s) # kvs) = (''  '' @ quoted k @ '': '' @ quoted s) # member_lines kvs"
| "member_lines ((k, v) # kvs) = member_lines kvs"

fun join_lines :: "string list \<Rightarrow> string" where
  "join_lines [] = []"
| "join_lines [l] = l"
| "join_lines (l # ls) = l @ '','' @ [CHR 0x0A] @ join_lines ls"

definition sample_stringify :: "jsval \<Rightarrow> string" where
  "sample_stringify v =
     (case v of
        JObj kvs \<Rightarrow> ''{'' @ [CHR 0x0A] @ join_lines (member_lines kvs) @ [CHR 0x0A] @ ''}''
      | _ \<Rightarrow> ''null'')"

fun defined_members :: "(string \<times> jsval) list \<Rightarrow> (string \<times> jsval) list" where
  "defined_members [] = []"
| "defined_members ((k, JUndefined) # kvs) = defined_members kvs"
| "defined_members ((k, v) # kvs) = (k, v) # defined_members kvs"

definition parsed_back :: "jsval \<Rightarrow> jsval" where
  "parsed_back v = (case v of JObj kvs \<Rightarrow> JObj (defined_members kvs) | _ \<Rightarrow> v)"

definition sample_records :: "jsval list" where
  "sample_records =
     [getWalletData walletA, getWalletData walletB, getWalletData walletC, tamperedA, mislabelledB]"

definition sample_parse :: "string \<Rightarrow> jsval option" where
  "sample_parse s =
     map_of (map (\<lambda>v. (sample_stringify v, parsed_back v)) sample_records @ [(''null'', JNull)]) s"

definition sample_rt :: js_runtime where
  "sample_rt = \<lparr>JSON_parse = sample_parse, JSON_stringify = sample_stringify\<rparr>"

type_synonym calls = "(string \<times> jsval) list"

definition sample_sdk :: "(nat, calls) ethers" where
  "sample_sdk =
     \<lparr>createRandom = (\<lambda>r. (if even r then walletA else walletB, Suc r)),
      fromPhrase = (\<lambda>v. case v of
                          JStr ph \<Rightarrow>
                            if ph = ''able acid also'' then Inr walletA
                            else if ph = ''baby bag bar'' then Inr walletB
                            else Inl (SdkError ''invalid mnemonic'')
                        | _ \<Rightarrow> Inl TypeError),
      parseEther = (\<lambda>s. if s = ''0.1'' then Inr (JNum 100000000000000000)
                         else Inl (SdkError ''invalid FixedNumber string value'')),
      getTransactionCount = (\<lambda>provider a tag n.
         (Inr (JNum 7), n @ [(''getTransactionCount'', JArr [a, JStr tag])])),
      getFeeData = (\<lambda>provider n.
         (Inr (JObj [(''gasPrice'', JNum 1000000000)]), n @ [(''getFeeData'', JArr [])])),
      sendTransaction = (\<lambda>w tx n.
         (Inl (SdkError ''missing provider''), n @ [(''sendTransaction'', tx)])),
      wait = (\<lambda>transaction n.
         (Inr (JObj [(''status'', JNum 1)]), n @ [(''wait'', transaction)]))\<rparr>"

definition empty_store :: filesystem where
  "empty_store = [(''.'', Dir), (''notes.txt'', File ''to do'')]"


definition sample_store :: filesystem where
  "sample_store =
     [(''.'', Dir),
      (''./wallets'', Dir),
      (''./wallets/0xAAA.json'', File (sample_stringify (getWalletData walletA))),
      (''./wallets/0xCCC.json'', File (sample_stringify (getWalletData walletC))),
      (''./wallets/0xDDD.json'', File (sample_stringify mislabelledB)),
      (''./wallets/broken.json'', File ''{ not json''),
      (''./two'', Dir),
      (''./two/0xAAA.json'', File (sample_stringify (getWalletData walletA))),
      (''./two/broken.json'', File ''{ not json'')]"

definition tampered_store :: filesystem where
  "tampered_store =
     [(''.'', Dir),
      (''./wallets'', Dir),
      (''./wallets/0xAAA.json'', File (sample_stringify tamperedA)),
      (''./wallets/0xCCC.json'', File (sample_stringify (getWalletData walletC))),
      (''./wallets/0xDDD.json'', File (sample_stringify mislabelledB)),
      (''./wallets/broken.json'', File ''{ not json''),
      (''./two'', Dir),
      (''./two/0xAAA.json'', File (sample_stringify (getWalletData walletA))),
      (''./two/broken.json'', File ''{ not json'')]"

definition sample_env :: "string \<Rightarrow> string option" where
  "sample_env =
     [''PROVIDER_URL'' \<mapsto> ''http://localhost:8545'',
      ''TEST_WALLET_ADDRESS'' \<mapsto> ''0xAAA'',
      ''TEST_RECIPIENT_ADDRESS'' \<mapsto> ''0xBBB'']"

section \<open>What a successful save leaves in the store\<close>

lemma node_at_update:
  "valid_path p \<Longrightarrow> node_at (AList.update p v fs) = (node_at fs)(p \<mapsto> v)"
  by (rule ext) (auto simp: node_at_def update_conv')

lemma parent_error_valid: "parent_error fs p = None \<Longrightarrow> valid_path p"
  by (auto simp: parent_error_def split: if_splits)

lemma node_at_valid: "node_at fs p = Some n \<Longrightarrow> valid_path p"
  by (auto simp: node_at_def split: if_splits)

lemma writeFileSync_valid: "writeFileSync fs p c = Inr fs' \<Longrightarrow> valid_path p"
  by (auto simp: writeFileSync_def dest: node_at_valid parent_error_valid
      split: option.splits node.splits)

lemma writeFileSync_updates:
  "writeFileSync fs p c = Inr fs' \<Longrightarrow> fs' = AList.update p (File c) fs"
  by (auto simp: writeFileSync_def split: option.splits node.splits)

lemma writeFileSync_node_at:
  assumes "writeFileSync fs p c = Inr fs'"
  shows "node_at fs' = (node_at fs)(p \<mapsto> File c)"
  using writeFileSync_updates [OF assms] writeFileSync_valid [OF assms]
  by (simp add: node_at_update)


lemma save_wallet_node_at:
  "save_wallet rt d w fs = Inr fs' \<Longrightarrow>
   node_at fs' = (node_at fs)(d @ ''/'' @ address w @ ''.json'' \<mapsto> File (JSON_stringify rt (getWalletData w)))"
  by (simp add: save_wallet_def getWalletData_def Let_def writeFileSync_node_at)


lemma save_forEach_frame:
  "save_forEach rt d ws fs = (None, fs') \<Longrightarrow>
   \<forall>w \<in> set ws. d @ ''/'' @ address w @ ''.json'' \<noteq> p \<Longrightarrow>
   node_at fs' p = node_at fs p"
proof (induction ws arbitrary: fs)
  case Nil
  then show ?case by simp
next
  case (Cons w ws)
  from Cons.prems(1) obtain fs1 where w: "save_wallet rt d w fs = Inr fs1"
    and rest: "save_forEach rt d ws fs1 = (None, fs')"
    by (auto split: sum.splits)
  have "node_at fs' p = node_at fs1 p"
    using Cons.IH [OF rest] Cons.prems(2) by simp
  also have "\<dots> = node_at fs p"
    using save_wallet_node_at [OF w] Cons.prems(2) by auto
  finally show ?case .
qed


lemma save_forEach_last:
  "save_forEach rt d (before @ w # after) fs = (None, fs') \<Longrightarrow>
   address w \<notin> address ` set after \<Longrightarrow>
   node_at fs' (d @ ''/'' @ address w @ ''.json'') = Some (File (JSON_stringify rt (getWalletData w)))"
proof (induction before arbitrary: fs)
  case Nil
  from Nil.prems(1) obtain fs1 where w: "save_wallet rt d w fs = Inr fs1"
    and rest: "save_forEach rt d after fs1 = (None, fs')"
    by (auto split: sum.splits)
  have "\<forall>v \<in> set after. d @ ''/'' @ address v @ ''.json'' \<noteq> d @ ''/'' @ address w @ ''.json''"
    using Nil.prems(2) by (auto simp: image_iff)
  from save_forEach_frame [OF rest this] save_wallet_node_at [OF w]
  show ?case by simp
next
  case (Cons b before)
  from Cons.prems(1) obtain fs1 where
    rest: "save_forEach rt d (before @ w # after) fs1 = (None, fs')"
    by (auto split: sum.splits)
  from Cons.IH [OF rest Cons.prems(2)] show ?case .
qed


text \<open>The file system on which the loop of \<open>saveWallets\<close> starts.\<close>

lemma saveWallets_loop:
  assumes "saveWallets rt ws d fs = (None, fs')"
  obtains fs1 where "save_forEach rt d ws fs1 = (None, fs')"
    and "fs1 = fs \<or> (node_at fs d = None \<and> valid_path d \<and> fs1 = AList.update d Dir fs)"
proof (cases "existsSync fs d")
  case True
  with assms have "save_forEach rt d ws fs = (None, fs')"
    by (simp add: saveWallets_def)
  then show ?thesis by (rule that) simp
next
  case False
  with assms obtain fs1 where made: "mkdirSync fs d = Inr fs1"
    and loop: "save_forEach rt d ws fs1 = (None, fs')"
    by (auto simp: saveWallets_def split: sum.splits)
  from made have "node_at fs d = None \<and> valid_path d \<and> fs1 = AList.update d Dir fs"
    by (auto simp: mkdirSync_def dest: parent_error_valid split: option.splits)
  then have "fs1 = fs \<or> (node_at fs d = None \<and> valid_path d \<and> fs1 = AList.update d Dir fs)"
    by (rule disjI2)
  with loop show ?thesis by (rule that)
qed

lemma saveWallets_last:
  assumes "saveWallets rt (before @ w # after) d fs = (None, fs')"
    and "address w \<notin> address ` set after"
  shows "node_at fs' (d @ ''/'' @ address w @ ''.json'') = Some (File (JSON_stringify rt (getWalletData w)))"
proof -
  from assms(1) obtain fs1 where "save_forEach rt d (before @ w # after) fs1 = (None, fs')"
    by (rule saveWallets_loop)
  from save_forEach_last [OF this assms(2)] show ?thesis .
qed

lemma try_recover_phrase:
  assumes "node_at fs p = Some (File c)"
    and "JSON_parse rt c = Some walletData"
    and "get_prop walletData ''phrase'' = Inr ph"
    and "truthy ph"
  shows "try_recover sdk rt fs p =
           (case fromPhrase sdk ph of Inl e \<Rightarrow> Inl e | Inr wallet \<Rightarrow> Inr (Some wallet))"
  using assms by (simp add: try_recover_def readFileSync_def)

section \<open>Round trip\<close>

text \<open>
  C1. A wallet whose phrase re-derives its address and keys, saved by \<open>saveWallets\<close> in
  a batch in which no later wallet has its address, is loaded again by \<open>loadWallet\<close> on
  its address and the same directory: the result is a wallet with the same address,
  public key and private key, and nothing is logged. The save is one that returned
  without an exception, and \<open>JSON.parse\<close> inverts \<open>JSON.stringify\<close> on the wallet's
  record.
\<close>

theorem save_then_loadWallet_round_trip:
  assumes saved: "saveWallets rt (before @ wallet # after) walletsDir fs = (None, fs')"
    and last: "address wallet \<notin> address ` set after"
    and hd: "rederivable sdk wallet"
    and json: "JSON_parse rt (JSON_stringify rt (getWalletData wallet)) = Some (getWalletData wallet)"
  shows "\<exists>loaded. loadWallet sdk rt (address wallet) walletsDir fs' = (Some loaded, []) \<and>
           address loaded = address wallet \<and>
           publicKey loaded = publicKey wallet \<and>
           privateKey loaded = privateKey wallet"
proof -
  let ?p = "walletsDir @ ''/'' @ address wallet @ ''.json''"
  from hd obtain ph loaded where ph: "mnemonic wallet = Some ph" "ph \<noteq> []"
    and loaded: "fromPhrase sdk (JStr ph) = Inr loaded"
    and same: "address loaded = address wallet" "publicKey loaded = publicKey wallet"
      "privateKey loaded = privateKey wallet"
    by (auto simp: rederivable_def split: option.splits sum.splits)
  have stored: "node_at fs' ?p = Some (File (JSON_stringify rt (getWalletData wallet)))"
    by (rule saveWallets_last [OF saved last])
  have held: "get_prop (getWalletData wallet) ''phrase'' = Inr (JStr ph)"
    using ph by (simp add: getWalletData_def)
  have "try_recover sdk rt fs' ?p = Inr (Some loaded)"
    using try_recover_phrase [OF stored json held, of sdk] ph loaded by simp
  with stored have "loadWallet sdk rt (address wallet) walletsDir fs' = (Some loaded, [])"
    by (simp add: loadWallet_def existsSync_def)
  with same show ?thesis by simp
qed

lemma sample_created: "fst (createWallets sample_sdk 2 0) = [walletA, walletB]"
  by (simp add: createWallets_def sample_sdk_def numeral_2_eq_2)

theorem save_then_loadWallet_round_trip_witness:
  "fst (createWallets sample_sdk 2 0) = [] @ walletA # [walletB] \<and>
   fst (saveWallets sample_rt ([] @ walletA # [walletB]) ''./wallets'' empty_store) = None \<and>
   address walletA \<notin> address ` set [walletB] \<and>
   rederivable sample_sdk walletA \<and>
   JSON_parse sample_rt (JSON_stringify sample_rt (getWalletData walletA)) = Some (getWalletData walletA) \<and>
   (\<exists>loaded. loadWallet sample_sdk sample_rt (address walletA) ''./wallets''
        (snd (saveWallets sample_rt ([] @ walletA # [walletB]) ''./wallets'' empty_store)) = (Some loaded, []) \<and>
      address loaded = address walletA \<and>
      publicKey loaded = publicKey walletA \<and>
      privateKey loaded = privateKey walletA)"
proof -
  have created: "fst (createWallets sample_sdk 2 0) = [] @ walletA # [walletB]"
    by (simp add: sample_created)
  have ok: "fst (saveWallets sample_rt ([] @ walletA # [walletB]) ''./wallets'' empty_store) = None"
    by code_simp
  have saved: "saveWallets sample_rt ([] @ walletA # [walletB]) ''./wallets'' empty_store =
      (None, snd (saveWallets sample_rt ([] @ walletA # [walletB]) ''./wallets'' empty_store))"
    using ok by (simp add: prod_eq_iff)
  have last: "address walletA \<notin> address ` set [walletB]"
    by (simp add: walletA_def walletB_def)
  have hd: "rederivable sample_sdk walletA"
    by (simp add: rederivable_def sample_sdk_def walletA_def)
  have json: "JSON_parse sample_rt (JSON_stringify sample_rt (getWalletData walletA)) = Some (getWalletData walletA)"
    by code_simp
  from save_then_loadWallet_round_trip [OF saved last hd json] created ok last hd json
  show ?thesis by blast
qed

section \<open>When a save succeeds\<close>








section \<open>The store invariant and overwriting\<close>










section \<open>Single lookup\<close>

text \<open>
  C4. When the file \<open>walletsDir/walletAddress.json\<close> does not exist, and when it exists
  but reading it fails or \<open>JSON.parse\<close> rejects its text, \<open>loadWallet\<close> returns \<open>null\<close>;
  the function has no exception of its own. In the first case nothing is logged, in the
  others one line with the path and the error caught. The value returned is the same, so
  the caller cannot tell the cases apart.
\<close>

theorem loadWallet_missing_or_corrupt_is_null:
  assumes "\<not> existsSync fs (walletsDir @ ''/'' @ walletAddress @ ''.json'') \<or>
           (\<exists>e. readFileSync fs (walletsDir @ ''/'' @ walletAddress @ ''.json'') = Inl e) \<or>
           (\<exists>c. readFileSync fs (walletsDir @ ''/'' @ walletAddress @ ''.json'') = Inr c \<and>
                JSON_parse rt c = None)"
  shows "fst (loadWallet sdk rt walletAddress walletsDir fs) = None \<and>
         snd (loadWallet sdk rt walletAddress walletsDir fs) =
           (if existsSync fs (walletsDir @ ''/'' @ walletAddress @ ''.json'')
            then [(walletsDir @ ''/'' @ walletAddress @ ''.json'',
                   case readFileSync fs (walletsDir @ ''/'' @ walletAddress @ ''.json'') of
                     Inl e \<Rightarrow> e | Inr c \<Rightarrow> SyntaxError)]
            else [])"
  using assms
  by (auto simp: loadWallet_def try_recover_def Let_def split: sum.splits option.splits)

theorem loadWallet_missing_or_corrupt_is_null_witness:
  "(\<not> existsSync sample_store (''./wallets'' @ ''/'' @ ''0xBBB'' @ ''.json'') \<and>
    loadWallet sample_sdk sample_rt ''0xBBB'' ''./wallets'' sample_store = (None, [])) \<and>
   (existsSync sample_store (''./wallets'' @ ''/'' @ ''broken'' @ ''.json'') \<and>
    readFileSync sample_store (''./wallets'' @ ''/'' @ ''broken'' @ ''.json'') = Inr ''{ not json'' \<and>
    JSON_parse sample_rt ''{ not json'' = None \<and>
    loadWallet sample_sdk sample_rt ''broken'' ''./wallets'' sample_store =
      (None, [(''./wallets/broken.json'', SyntaxError)]))"
proof -
  have missing: "\<not> existsSync sample_store (''./wallets'' @ ''/'' @ ''0xBBB'' @ ''.json'')"
    by (simp add: existsSync_def node_at_def valid_path_def sample_store_def)
  have there: "existsSync sample_store (''./wallets'' @ ''/'' @ ''broken'' @ ''.json'')"
    by (simp add: existsSync_def node_at_def valid_path_def sample_store_def)
  have content: "readFileSync sample_store (''./wallets'' @ ''/'' @ ''broken'' @ ''.json'') = Inr ''{ not json''"
    by (simp add: readFileSync_def node_at_def valid_path_def sample_store_def)
  have corrupt: "JSON_parse sample_rt ''{ not json'' = None"
    by code_simp
  from loadWallet_missing_or_corrupt_is_null [of sample_store "''./wallets''" "''0xBBB''" sample_rt sample_sdk] missing
  have one: "loadWallet sample_sdk sample_rt ''0xBBB'' ''./wallets'' sample_store = (None, [])"
    by (simp add: prod_eq_iff)
  from loadWallet_missing_or_corrupt_is_null [of sample_store "''./wallets''" "''broken''" sample_rt sample_sdk]
    there content corrupt
  have two: "loadWallet sample_sdk sample_rt ''broken'' ''./wallets'' sample_store =
      (None, [(''./wallets/broken.json'', SyntaxError)])"
    by (simp add: prod_eq_iff)
  show ?thesis using missing there content corrupt one two
    by blast
qed

text \<open>
  C9. \<open>loadWallet\<close> does not compare the address asked for with the wallet recovered:
  when the file \<open>walletsDir/walletAddress.json\<close> parses to a record whose truthy phrase
  the SDK derives a wallet of another address from, that wallet is returned, not \<open>null\<close>,
  and nothing is logged.
\<close>

theorem loadWallet_returns_other_address:
  assumes "readFileSync fs (walletsDir @ ''/'' @ walletAddress @ ''.json'') = Inr c"
    and "JSON_parse rt c = Some walletData"
    and "get_prop walletData ''phrase'' = Inr ph"
    and "truthy ph"
    and "fromPhrase sdk ph = Inr wallet"
    and "address wallet \<noteq> walletAddress"
  shows "loadWallet sdk rt walletAddress walletsDir fs = (Some wallet, []) \<and>
         (\<exists>loaded. fst (loadWallet sdk rt walletAddress walletsDir fs) = Some loaded \<and>
                   address loaded \<noteq> walletAddress)"
  using assms
  by (auto simp: loadWallet_def try_recover_def existsSync_def readFileSync_def Let_def
      split: option.splits node.splits)

theorem loadWallet_returns_other_address_witness:
  "readFileSync sample_store (''./wallets'' @ ''/'' @ ''0xDDD'' @ ''.json'') = Inr (sample_stringify mislabelledB) \<and>
   JSON_parse sample_rt (sample_stringify mislabelledB) = Some mislabelledB \<and>
   get_prop mislabelledB ''phrase'' = Inr (JStr ''baby bag bar'') \<and>
   truthy (JStr ''baby bag bar'') \<and>
   fromPhrase sample_sdk (JStr ''baby bag bar'') = Inr walletB \<and>
   address walletB \<noteq> ''0xDDD'' \<and>
   loadWallet sample_sdk sample_rt ''0xDDD'' ''./wallets'' sample_store = (Some walletB, []) \<and>
   (\<exists>loaded. fst (loadWallet sample_sdk sample_rt ''0xDDD'' ''./wallets'' sample_store) = Some loaded \<and>
              address loaded \<noteq> ''0xDDD'')"
proof -
  have h1: "readFileSync sample_store (''./wallets'' @ ''/'' @ ''0xDDD'' @ ''.json'') = Inr (sample_stringify mislabelledB)"
    by (simp add: readFileSync_def node_at_def valid_path_def sample_store_def)
  have h2: "JSON_parse sample_rt (sample_stringify mislabelledB) = Some mislabelledB"
    by code_simp
  have h3: "get_prop mislabelledB ''phrase'' = Inr (JStr ''baby bag bar'')"
    by (simp add: mislabelledB_def)
  have h4: "truthy (JStr ''baby bag bar'')" by simp
  have h5: "fromPhrase sample_sdk (JStr ''baby bag bar'') = Inr walletB"
    by (simp add: sample_sdk_def)
  have h6: "address walletB \<noteq> ''0xDDD''" by (simp add: walletB_def)
  from loadWallet_returns_other_address [OF h1 h2 h3 h4 h5 h6] h1 h2 h3 h4 h5 h6
  show ?thesis by blast
qed

text \<open>
  C10. When the file \<open>walletsDir/walletAddress.json\<close> exists and parses to an object
  without a \<open>phrase\<close> property, \<open>loadWallet\<close> returns \<open>null\<close> and logs nothing: the
  very result it has on a file system where the file is missing.
\<close>

theorem loadWallet_phraseless_is_null:
  assumes "readFileSync fs (walletsDir @ ''/'' @ walletAddress @ ''.json'') = Inr c"
    and "JSON_parse rt c = Some (JObj kvs)"
    and "map_of kvs ''phrase'' = None"
    and "\<not> existsSync fs_without (walletsDir @ ''/'' @ walletAddress @ ''.json'')"
  shows "loadWallet sdk rt walletAddress walletsDir fs = (None, []) \<and>
         loadWallet sdk rt walletAddress walletsDir fs =
           loadWallet sdk rt walletAddress walletsDir fs_without"
  using assms
  by (auto simp: loadWallet_def try_recover_def existsSync_def readFileSync_def Let_def
      split: option.splits node.splits)

theorem loadWallet_phraseless_is_null_witness:
  "readFileSync sample_store (''./wallets'' @ ''/'' @ ''0xCCC'' @ ''.json'') =
     Inr (sample_stringify (getWalletData walletC)) \<and>
   JSON_parse sample_rt (sample_stringify (getWalletData walletC)) =
     Some (JObj [(''address'', JStr ''0xCCC''), (''privateKey'', JStr ''0xc3''),
                 (''publicKey'', JStr ''0x02c3'')]) \<and>
   map_of [(''address'', JStr ''0xCCC''), (''privateKey'', JStr ''0xc3''),
           (''publicKey'', JStr ''0x02c3'')] ''phrase'' = None \<and>
   \<not> existsSync empty_store (''./wallets'' @ ''/'' @ ''0xCCC'' @ ''.json'') \<and>
   loadWallet sample_sdk sample_rt ''0xCCC'' ''./wallets'' sample_store = (None, []) \<and>
   loadWallet sample_sdk sample_rt ''0xCCC'' ''./wallets'' sample_store =
     loadWallet sample_sdk sample_rt ''0xCCC'' ''./wallets'' empty_store"
proof -
  have h1: "readFileSync sample_store (''./wallets'' @ ''/'' @ ''0xCCC'' @ ''.json'') =
     Inr (sample_stringify (getWalletData walletC))"
    by (simp add: readFileSync_def node_at_def valid_path_def sample_store_def)
  have h2: "JSON_parse sample_rt (sample_stringify (getWalletData walletC)) =
     Some (JObj [(''address'', JStr ''0xCCC''), (''privateKey'', JStr ''0xc3''),
                 (''publicKey'', JStr ''0x02c3'')])"
    by code_simp
  have h3: "map_of [(''address'', JStr ''0xCCC''), (''privateKey'', JStr ''0xc3''),
           (''publicKey'', JStr ''0x02c3'')] ''phrase'' = None"
    by simp
  have h4: "\<not> existsSync empty_store (''./wallets'' @ ''/'' @ ''0xCCC'' @ ''.json'')"
    by (simp add: existsSync_def node_at_def valid_path_def empty_store_def)
  from loadWallet_phraseless_is_null [OF h1 h2 h3 h4] h1 h2 h3 h4
  show ?thesis by blast
qed

section \<open>Bulk load\<close>

text \<open>
  C5, as amended. When nothing exists at \<open>walletsDir\<close>, neither a directory nor a file,
  \<open>loadWallets\<close> returns the empty sequence, logs nothing and raises nothing.
\<close>

theorem loadWallets_nothing_at_path:
  assumes "\<not> existsSync fs walletsDir"
  shows "loadWallets sdk rt walletsDir fs = Inr ([], [])"
  using assms by (simp add: loadWallets_def)

theorem loadWallets_nothing_at_path_witness:
  "\<not> existsSync empty_store ''./wallets'' \<and>
   loadWallets sample_sdk sample_rt ''./wallets'' empty_store = Inr ([], [])"
proof -
  have h: "\<not> existsSync empty_store ''./wallets''"
    by (simp add: existsSync_def node_at_def valid_path_def empty_store_def)
  from loadWallets_nothing_at_path [OF h] h show ?thesis by blast
qed

text \<open>
  C5 as stated speaks of every path that does not exist as a directory. A path at which
  a regular file exists is such a path: \<open>existsSync\<close> is true of it, and \<open>readdirSync\<close>,
  which no \<open>try\<close> encloses, raises \<open>ENOTDIR\<close>.
\<close>

theorem loadWallets_on_regular_file_raises:
  "map_of empty_store ''notes.txt'' = Some (File ''to do'') \<and>
   loadWallets sample_sdk sample_rt ''notes.txt'' empty_store = Inl ENOTDIR"
  by (simp add: loadWallets_def existsSync_def readdirSync_def node_at_def valid_path_def empty_store_def)

subsection \<open>The loop over the entries\<close>

lemma load_file_acc:
  "load_file sdk rt fs d f acc =
     (fst acc @ fst (load_file sdk rt fs d f ([], [])), snd acc @ snd (load_file sdk rt fs d f ([], [])))"
  by (simp add: load_file_def Let_def split: sum.splits option.splits)

lemma load_forEach_acc:
  "load_forEach sdk rt fs d files acc =
     (fst acc @ fst (load_forEach sdk rt fs d files ([], [])),
      snd acc @ snd (load_forEach sdk rt fs d files ([], [])))"
proof (induction files arbitrary: acc)
  case Nil
  then show ?case by simp
next
  case (Cons f files)
  let ?one = "load_file sdk rt fs d f ([], [])"
  have "load_forEach sdk rt fs d (f # files) acc =
          load_forEach sdk rt fs d files (load_file sdk rt fs d f acc)" by simp
  also have "\<dots> = (fst (load_file sdk rt fs d f acc) @ fst (load_forEach sdk rt fs d files ([], [])),
                   snd (load_file sdk rt fs d f acc) @ snd (load_forEach sdk rt fs d files ([], [])))"
    by (rule Cons.IH)
  also have "\<dots> = (fst acc @ fst ?one @ fst (load_forEach sdk rt fs d files ([], [])),
                   snd acc @ snd ?one @ snd (load_forEach sdk rt fs d files ([], [])))"
    using load_file_acc [of sdk rt fs d f acc] by (metis append_assoc fst_conv snd_conv)
  also have "\<dots> = (fst acc @ fst (load_forEach sdk rt fs d (f # files) ([], [])),
                   snd acc @ snd (load_forEach sdk rt fs d (f # files) ([], [])))"
    using Cons.IH [of ?one] by simp
  finally show ?case .
qed

lemma fst_load_file:
  "fst (load_file sdk rt fs d f ([], [])) =
     (case recovered sdk rt fs d f of None \<Rightarrow> [] | Some w \<Rightarrow> [w])"
  by (simp add: load_file_def try_recover_def recovered_def record_phrase_def Let_def
      split: sum.splits option.splits)

lemma fst_load_forEach:
  "fst (load_forEach sdk rt fs d files ([], [])) = List.map_filter (recovered sdk rt fs d) files"
proof (induction files)
  case Nil
  then show ?case by (simp add: map_filter_simps)
next
  case (Cons f files)
  have "fst (load_forEach sdk rt fs d (f # files) ([], [])) =
          fst (load_file sdk rt fs d f ([], [])) @ fst (load_forEach sdk rt fs d files ([], []))"
    using load_forEach_acc [of sdk rt fs d files "load_file sdk rt fs d f ([], [])"] by simp
  with Cons.IH show ?case
    by (simp add: fst_load_file map_filter_simps split: option.splits)
qed

lemma phraseless_load_file:
  "phraseless rt fs d f \<Longrightarrow> load_file sdk rt fs d f acc = acc"
  by (auto simp: phraseless_def load_file_def try_recover_def Let_def
      split: sum.splits option.splits jsval.splits)

lemma load_forEach_without_phraseless:
  "load_forEach sdk rt fs d (filter (\<lambda>f. \<not> phraseless rt fs d f) files) acc =
     load_forEach sdk rt fs d files acc"
  by (induction files arbitrary: acc) (simp_all add: phraseless_load_file)

lemma readdirSync_exists: "readdirSync fs d = Inr files \<Longrightarrow> existsSync fs d"
  by (auto simp: readdirSync_def existsSync_def split: option.splits)

text \<open>
  C3. On a directory that can be listed, \<open>loadWallets\<close> does not fail, and what it
  returns is, in the order of the listing, the wallets that the SDK derives from the
  truthy phrases of the entries with the suffix: one for each such record that the SDK
  accepts, and nothing else. An entry that parses to an object without a \<open>phrase\<close>
  property yields no wallet, and the wallets and the console are those of the same
  listing with every such entry left out.
\<close>

theorem loadWallets_skips_phraseless:
  assumes "readdirSync fs walletsDir = Inr walletFiles"
  shows "\<exists>wallets lines.
           loadWallets sdk rt walletsDir fs = Inr (wallets, lines) \<and>
           wallets = List.map_filter (recovered sdk rt fs walletsDir) walletFiles \<and>
           (wallets, lines) =
             load_forEach sdk rt fs walletsDir
               (filter (\<lambda>f. \<not> phraseless rt fs walletsDir f) walletFiles) ([], []) \<and>
           (\<forall>f \<in> set walletFiles. phraseless rt fs walletsDir f \<longrightarrow>
              recovered sdk rt fs walletsDir f = None)"
proof -
  let ?r = "load_forEach sdk rt fs walletsDir walletFiles ([], [])"
  have run: "loadWallets sdk rt walletsDir fs = Inr (fst ?r, snd ?r)"
    using assms readdirSync_exists [OF assms] by (simp add: loadWallets_def)
  have exact: "fst ?r = List.map_filter (recovered sdk rt fs walletsDir) walletFiles"
    by (rule fst_load_forEach)
  have without: "(fst ?r, snd ?r) =
      load_forEach sdk rt fs walletsDir
        (filter (\<lambda>f. \<not> phraseless rt fs walletsDir f) walletFiles) ([], [])"
    by (simp add: load_forEach_without_phraseless)
  have none: "\<forall>f \<in> set walletFiles. phraseless rt fs walletsDir f \<longrightarrow>
      recovered sdk rt fs walletsDir f = None"
    by (auto simp: phraseless_def recovered_def record_phrase_def
        split: sum.splits option.splits jsval.splits)
  from run exact without none show ?thesis by blast
qed

theorem loadWallets_skips_phraseless_witness:
  "readdirSync sample_store ''./wallets'' =
     Inr [''0xAAA.json'', ''0xCCC.json'', ''0xDDD.json'', ''broken.json''] \<and>
   phraseless sample_rt sample_store ''./wallets'' ''0xCCC.json'' \<and>
   recovered sample_sdk sample_rt sample_store ''./wallets'' ''0xCCC.json'' = None \<and>
   loadWallets sample_sdk sample_rt ''./wallets'' sample_store =
     Inr ([walletA, walletB], [(''./wallets/broken.json'', SyntaxError)]) \<and>
   [walletA, walletB] =
     List.map_filter (recovered sample_sdk sample_rt sample_store ''./wallets'')
       [''0xAAA.json'', ''0xCCC.json'', ''0xDDD.json'', ''broken.json''] \<and>
   ([walletA, walletB], [(''./wallets/broken.json'', SyntaxError)]) =
      load_forEach sample_sdk sample_rt sample_store ''./wallets''
        (filter (\<lambda>f. \<not> phraseless sample_rt sample_store ''./wallets'' f)
           [''0xAAA.json'', ''0xCCC.json'', ''0xDDD.json'', ''broken.json'']) ([], [])"
proof -
  have listing: "readdirSync sample_store ''./wallets'' =
     Inr [''0xAAA.json'', ''0xCCC.json'', ''0xDDD.json'', ''broken.json'']"
    by code_simp
  have skipped: "phraseless sample_rt sample_store ''./wallets'' ''0xCCC.json''"
    by code_simp
  have loaded: "loadWallets sample_sdk sample_rt ''./wallets'' sample_store =
     Inr ([walletA, walletB], [(''./wallets/broken.json'', SyntaxError)])"
    by code_simp
  from loadWallets_skips_phraseless [OF listing, of sample_sdk sample_rt]
  obtain wallets lines where
    run: "loadWallets sample_sdk sample_rt ''./wallets'' sample_store = Inr (wallets, lines)"
    and exact: "wallets = List.map_filter (recovered sample_sdk sample_rt sample_store ''./wallets'')
                  [''0xAAA.json'', ''0xCCC.json'', ''0xDDD.json'', ''broken.json'']"
    and without: "(wallets, lines) =
         load_forEach sample_sdk sample_rt sample_store ''./wallets''
           (filter (\<lambda>f. \<not> phraseless sample_rt sample_store ''./wallets'' f)
              [''0xAAA.json'', ''0xCCC.json'', ''0xDDD.json'', ''broken.json'']) ([], [])"
    and none: "\<forall>f \<in> set [''0xAAA.json'', ''0xCCC.json'', ''0xDDD.json'', ''broken.json''].
          phraseless sample_rt sample_store ''./wallets'' f \<longrightarrow>
          recovered sample_sdk sample_rt sample_store ''./wallets'' f = None"
    by blast
  from run loaded have eq: "wallets = [walletA, walletB]"
    "lines = [(''./wallets/broken.json'', SyntaxError)]" by simp_all
  from none skipped have gone: "recovered sample_sdk sample_rt sample_store ''./wallets'' ''0xCCC.json'' = None"
    by simp
  show ?thesis
    using exact without unfolding eq
    by (intro conjI listing skipped gone loaded)
qed

text \<open>
  C2. On a directory whose listing is one entry with a record that the SDK recovers a
  wallet from and one entry that cannot be read or does not parse, in either order and
  both with the suffix, \<open>loadWallets\<close> returns exactly the wallet of the first, writes
  one console line with the path of the second and the error caught, and raises
  nothing.
\<close>

theorem loadWallets_corrupt_file_isolated:
  assumes listing: "readdirSync fs walletsDir = Inr walletFiles"
    and two: "walletFiles = [good, bad] \<or> walletFiles = [bad, good]"
    and suffix: "endsWith good ''.json''" "endsWith bad ''.json''"
    and good: "readFileSync fs (walletsDir @ ''/'' @ good) = Inr c"
      "JSON_parse rt c = Some walletData"
      "get_prop walletData ''phrase'' = Inr ph" "truthy ph"
      "fromPhrase sdk ph = Inr wallet"
    and bad: "readFileSync fs (walletsDir @ ''/'' @ bad) = Inl e \<or>
              (\<exists>c'. readFileSync fs (walletsDir @ ''/'' @ bad) = Inr c' \<and>
                    JSON_parse rt c' = None \<and> e = SyntaxError)"
  shows "loadWallets sdk rt walletsDir fs = Inr ([wallet], [(walletsDir @ ''/'' @ bad, e)])"
proof -
  have g: "try_recover sdk rt fs (walletsDir @ ''/'' @ good) = Inr (Some wallet)"
    using good by (simp add: try_recover_def)
  have b: "try_recover sdk rt fs (walletsDir @ ''/'' @ bad) = Inl e"
    using bad by (auto simp: try_recover_def)
  have lg: "load_file sdk rt fs walletsDir good acc = (fst acc @ [wallet], snd acc)" for acc
    using g suffix(1) by (simp add: load_file_def)
  have lb: "load_file sdk rt fs walletsDir bad acc = (fst acc, snd acc @ [(walletsDir @ ''/'' @ bad, e)])" for acc
    using b suffix(2) by (simp add: load_file_def)
  have "load_forEach sdk rt fs walletsDir walletFiles ([], []) =
          ([wallet], [(walletsDir @ ''/'' @ bad, e)])"
    using two by (auto simp: lg lb)
  then show ?thesis
    using listing readdirSync_exists [OF listing] by (simp add: loadWallets_def)
qed

theorem loadWallets_corrupt_file_isolated_witness:
  "readdirSync sample_store ''./two'' = Inr [''0xAAA.json'', ''broken.json''] \<and>
   endsWith ''0xAAA.json'' ''.json'' \<and> endsWith ''broken.json'' ''.json'' \<and>
   readFileSync sample_store (''./two'' @ ''/'' @ ''0xAAA.json'') =
     Inr (sample_stringify (getWalletData walletA)) \<and>
   JSON_parse sample_rt (sample_stringify (getWalletData walletA)) = Some (getWalletData walletA) \<and>
   get_prop (getWalletData walletA) ''phrase'' = Inr (JStr ''able acid also'') \<and>
   truthy (JStr ''able acid also'') \<and>
   fromPhrase sample_sdk (JStr ''able acid also'') = Inr walletA \<and>
   readFileSync sample_store (''./two'' @ ''/'' @ ''broken.json'') = Inr ''{ not json'' \<and>
   JSON_parse sample_rt ''{ not json'' = None \<and>
   loadWallets sample_sdk sample_rt ''./two'' sample_store =
     Inr ([walletA], [(''./two'' @ ''/'' @ ''broken.json'', SyntaxError)])"
proof -
  have listing: "readdirSync sample_store ''./two'' = Inr [''0xAAA.json'', ''broken.json'']"
    by code_simp
  have two: "[''0xAAA.json'', ''broken.json''] = [''0xAAA.json'', ''broken.json''] \<or>
             [''0xAAA.json'', ''broken.json''] = [''broken.json'', ''0xAAA.json'']"
    by simp
  have s1: "endsWith ''0xAAA.json'' ''.json''" by (simp add: endsWith_def)
  have s2: "endsWith ''broken.json'' ''.json''" by (simp add: endsWith_def)
  have g1: "readFileSync sample_store (''./two'' @ ''/'' @ ''0xAAA.json'') =
     Inr (sample_stringify (getWalletData walletA))"
    by (simp add: readFileSync_def node_at_def valid_path_def sample_store_def)
  have g2: "JSON_parse sample_rt (sample_stringify (getWalletData walletA)) = Some (getWalletData walletA)"
    by code_simp
  have g3: "get_prop (getWalletData walletA) ''phrase'' = Inr (JStr ''able acid also'')"
    by (simp add: getWalletData_def walletA_def)
  have g4: "truthy (JStr ''able acid also'')" by simp
  have g5: "fromPhrase sample_sdk (JStr ''able acid also'') = Inr walletA"
    by (simp add: sample_sdk_def)
  have b1: "readFileSync sample_store (''./two'' @ ''/'' @ ''broken.json'') = Inr ''{ not json''"
    by (simp add: readFileSync_def node_at_def valid_path_def sample_store_def)
  have b2: "JSON_parse sample_rt ''{ not json'' = None"
    by code_simp
  have b: "readFileSync sample_store (''./two'' @ ''/'' @ ''broken.json'') = Inl SyntaxError \<or>
      (\<exists>c'. readFileSync sample_store (''./two'' @ ''/'' @ ''broken.json'') = Inr c' \<and>
            JSON_parse sample_rt c' = None \<and> SyntaxError = SyntaxError)"
    using b1 b2 by simp
  from loadWallets_corrupt_file_isolated [OF listing two s1 s2 g1 g2 g3 g4 g5 b]
    listing s1 s2 g1 g2 g3 g4 g5 b1 b2
  show ?thesis by blast
qed

section \<open>Recovery uses the phrase alone\<close>

lemma same_phrases_map_of:
  "same_phrases rt fs1 fs2 \<Longrightarrow>
   rel_option (same_phrase rt) (map_of fs1 p) (map_of fs2 p)"
  unfolding same_phrases_def
  by (induction fs1 fs2 rule: list_all2_induct) (auto split: prod.splits)

lemma same_phrases_node_at:
  "same_phrases rt fs1 fs2 \<Longrightarrow>
   rel_option (same_phrase rt) (node_at fs1 p) (node_at fs2 p)"
  using same_phrases_map_of [of rt fs1 fs2 p] by (simp add: node_at_def)

lemma same_phrases_paths:
  "same_phrases rt fs1 fs2 \<Longrightarrow> List.map_filter (\<lambda>(p, n). g p) fs1 = List.map_filter (\<lambda>(p, n). g p) fs2"
  unfolding same_phrases_def
  by (induction fs1 fs2 rule: list_all2_induct)
     (auto simp: map_filter_simps split: prod.splits option.splits)

lemma record_of_Some:
  assumes "record_of rt n = Some kvs"
  obtains c where "n = File c" "JSON_parse rt c = Some (JObj kvs)"
proof (cases n)
  case Dir
  with assms show ?thesis by (simp add: record_of_def)
next
  case (File c)
  with assms have "(case JSON_parse rt c of Some (JObj kvs) \<Rightarrow> Some kvs | _ \<Rightarrow> None) = Some kvs"
    by (simp add: record_of_def)
  then have "JSON_parse rt c = Some (JObj kvs)"
    by (simp split: option.splits jsval.splits)
  with File show ?thesis by (rule that)
qed

lemma same_phrase_cases:
  assumes "same_phrase rt n1 n2"
  obtains (same) "n1 = n2"
  | (records) c1 c2 kvs1 kvs2 where "n1 = File c1" "n2 = File c2"
      "JSON_parse rt c1 = Some (JObj kvs1)" "JSON_parse rt c2 = Some (JObj kvs2)"
      "map_of kvs1 ''phrase'' = map_of kvs2 ''phrase''"
proof (cases "n1 = n2")
  case True
  then show ?thesis by (rule same)
next
  case False
  with assms obtain kvs1 kvs2 where r: "record_of rt n1 = Some kvs1" "record_of rt n2 = Some kvs2"
    and p: "map_of kvs1 ''phrase'' = map_of kvs2 ''phrase''"
    by (auto simp: same_phrase_def split: option.splits)
  from r(1) obtain c1 where c1: "n1 = File c1" "JSON_parse rt c1 = Some (JObj kvs1)"
    by (rule record_of_Some)
  from r(2) obtain c2 where c2: "n2 = File c2" "JSON_parse rt c2 = Some (JObj kvs2)"
    by (rule record_of_Some)
  from c1(1) c2(1) c1(2) c2(2) p show ?thesis by (rule records)
qed

lemma same_phrase_Dir: "same_phrase rt n1 n2 \<Longrightarrow> (n1 = Dir) = (n2 = Dir)"
  by (erule same_phrase_cases) simp_all

lemma same_phrases_existsSync:
  assumes "same_phrases rt fs1 fs2"
  shows "existsSync fs1 p = existsSync fs2 p"
  using same_phrases_node_at [OF assms, of p]
  by (auto simp: existsSync_def elim: option.rel_cases)

lemma same_phrases_readdirSync:
  assumes "same_phrases rt fs1 fs2"
  shows "readdirSync fs1 d = readdirSync fs2 d"
proof -
  have names: "List.map_filter (\<lambda>(p, n). child_name d p) fs1 =
               List.map_filter (\<lambda>(p, n). child_name d p) fs2"
    by (rule same_phrases_paths [OF assms])
  from same_phrases_node_at [OF assms, of d] show ?thesis
  proof (cases rule: option.rel_cases)
    case None
    then show ?thesis by (simp add: readdirSync_def)
  next
    case (Some n1 n2)
    with same_phrase_Dir [of rt n1 n2] names show ?thesis
      by (cases n1; cases n2) (auto simp: readdirSync_def)
  qed
qed

lemma same_phrase_try_recover:
  assumes "rel_option (same_phrase rt) (node_at fs1 p) (node_at fs2 p)"
  shows "try_recover sdk rt fs1 p = try_recover sdk rt fs2 p"
  using assms
proof (cases rule: option.rel_cases)
  case None
  then show ?thesis by (simp add: try_recover_def readFileSync_def)
next
  case (Some n1 n2)
  from Some(3) show ?thesis
  proof (cases rule: same_phrase_cases)
    case same
    with Some show ?thesis by (simp add: try_recover_def readFileSync_def)
  next
    case (records c1 c2 kvs1 kvs2)
    with Some show ?thesis by (simp add: try_recover_def readFileSync_def)
  qed
qed

lemma same_phrases_load_forEach:
  assumes "same_phrases rt fs1 fs2"
  shows "load_forEach sdk rt fs1 d files acc = load_forEach sdk rt fs2 d files acc"
proof (induction files arbitrary: acc)
  case Nil
  then show ?case by simp
next
  case (Cons f files)
  have "load_file sdk rt fs1 d f acc = load_file sdk rt fs2 d f acc"
    using same_phrase_try_recover [OF same_phrases_node_at [OF assms], of sdk "d @ ''/'' @ f"]
    by (simp add: load_file_def)
  with Cons.IH show ?case by simp
qed

lemma record_phrase_loadWallet:
  assumes "record_phrase rt fs walletsDir (walletAddress @ ''.json'') = Some ph"
  shows "loadWallet sdk rt walletAddress walletsDir fs =
           (case fromPhrase sdk ph of
              Inl e \<Rightarrow> (None, [(walletsDir @ ''/'' @ walletAddress @ ''.json'', e)])
            | Inr wallet \<Rightarrow> (Some wallet, []))"
proof -
  let ?p = "walletsDir @ ''/'' @ walletAddress @ ''.json''"
  from assms obtain c walletData where "readFileSync fs ?p = Inr c"
    "JSON_parse rt c = Some walletData" "get_prop walletData ''phrase'' = Inr ph" "truthy ph"
    by (auto simp: record_phrase_def split: if_splits sum.splits option.splits)
  moreover from this(1) have "existsSync fs ?p"
    by (auto simp: readFileSync_def existsSync_def split: option.splits)
  ultimately show ?thesis
    by (simp add: loadWallet_def try_recover_def split: sum.splits)
qed

text \<open>
  C8. Two file systems with the same paths whose files, where they differ, parse to
  objects with the same \<open>phrase\<close> property (so they may differ in \<open>privateKey\<close>,
  \<open>publicKey\<close>, \<open>address\<close> or anything else) give the same result of \<open>loadWallet\<close> for
  every address and directory and the same result of \<open>loadWallets\<close> for every directory:
  wallets, console lines and exceptions. And the result on the second is made of the
  phrases of the first: when the record of the first holds a truthy phrase, \<open>loadWallet\<close>
  on the second returns what \<open>fromPhrase\<close> makes of that phrase (the wallet, or \<open>null\<close>
  and a console line with the error), and the wallets of \<open>loadWallets\<close> on the second
  are, in the order of the listing, those that \<open>fromPhrase\<close> derives from the truthy
  phrases of the records of the first.
\<close>

theorem recovery_depends_on_phrase_only:
  assumes "same_phrases rt fs1 fs2"
  shows "loadWallet sdk rt walletAddress walletsDir fs1 =
           loadWallet sdk rt walletAddress walletsDir fs2 \<and>
         loadWallets sdk rt walletsDir fs1 = loadWallets sdk rt walletsDir fs2 \<and>
         (\<forall>ph. record_phrase rt fs1 walletsDir (walletAddress @ ''.json'') = Some ph \<longrightarrow>
               loadWallet sdk rt walletAddress walletsDir fs2 =
                 (case fromPhrase sdk ph of
                    Inl e \<Rightarrow> (None, [(walletsDir @ ''/'' @ walletAddress @ ''.json'', e)])
                  | Inr wallet \<Rightarrow> (Some wallet, []))) \<and>
         (\<forall>walletFiles. readdirSync fs1 walletsDir = Inr walletFiles \<longrightarrow>
               (\<exists>lines. loadWallets sdk rt walletsDir fs2 =
                  Inr (List.map_filter (recovered sdk rt fs1 walletsDir) walletFiles, lines)))"
proof -
  let ?p = "walletsDir @ ''/'' @ walletAddress @ ''.json''"
  have e: "existsSync fs1 ?p = existsSync fs2 ?p"
    by (rule same_phrases_existsSync [OF assms])
  have t: "try_recover sdk rt fs1 ?p = try_recover sdk rt fs2 ?p"
    by (rule same_phrase_try_recover [OF same_phrases_node_at [OF assms]])
  have one: "loadWallet sdk rt walletAddress walletsDir fs1 =
        loadWallet sdk rt walletAddress walletsDir fs2"
    unfolding loadWallet_def Let_def e t by (rule refl)
  have e': "existsSync fs1 walletsDir = existsSync fs2 walletsDir"
    by (rule same_phrases_existsSync [OF assms])
  have d: "readdirSync fs1 walletsDir = readdirSync fs2 walletsDir"
    by (rule same_phrases_readdirSync [OF assms])
  have l: "load_forEach sdk rt fs1 walletsDir files ([], []) =
           load_forEach sdk rt fs2 walletsDir files ([], [])" for files
    by (rule same_phrases_load_forEach [OF assms])
  have all: "loadWallets sdk rt walletsDir fs1 = loadWallets sdk rt walletsDir fs2"
    unfolding loadWallets_def e' d l by (rule refl)
  have from_phrase: "\<forall>ph. record_phrase rt fs1 walletsDir (walletAddress @ ''.json'') = Some ph \<longrightarrow>
      loadWallet sdk rt walletAddress walletsDir fs2 =
        (case fromPhrase sdk ph of
           Inl e \<Rightarrow> (None, [(walletsDir @ ''/'' @ walletAddress @ ''.json'', e)])
         | Inr wallet \<Rightarrow> (Some wallet, []))"
    using record_phrase_loadWallet [of rt fs1 walletsDir walletAddress _ sdk] one by simp
  have from_phrases: "\<forall>walletFiles. readdirSync fs1 walletsDir = Inr walletFiles \<longrightarrow>
      (\<exists>lines. loadWallets sdk rt walletsDir fs2 =
         Inr (List.map_filter (recovered sdk rt fs1 walletsDir) walletFiles, lines))"
  proof (intro allI impI)
    fix walletFiles
    assume listing: "readdirSync fs1 walletsDir = Inr walletFiles"
    let ?r = "load_forEach sdk rt fs1 walletsDir walletFiles ([], [])"
    have "loadWallets sdk rt walletsDir fs1 = Inr (fst ?r, snd ?r)"
      using listing readdirSync_exists [OF listing] by (simp add: loadWallets_def)
    with all fst_load_forEach [of sdk rt fs1 walletsDir walletFiles]
    have "loadWallets sdk rt walletsDir fs2 =
        Inr (List.map_filter (recovered sdk rt fs1 walletsDir) walletFiles, snd ?r)"
      by simp
    then show "\<exists>lines. loadWallets sdk rt walletsDir fs2 =
        Inr (List.map_filter (recovered sdk rt fs1 walletsDir) walletFiles, lines)" ..
  qed
  from one all from_phrase from_phrases show ?thesis by (intro conjI)
qed

theorem recovery_depends_on_phrase_only_witness:
  "same_phrases sample_rt sample_store tampered_store \<and>
   readFileSync sample_store ''./wallets/0xAAA.json'' = Inr (sample_stringify (getWalletData walletA)) \<and>
   readFileSync tampered_store ''./wallets/0xAAA.json'' = Inr (sample_stringify tamperedA) \<and>
   sample_stringify (getWalletData walletA) \<noteq> sample_stringify tamperedA \<and>
   get_prop tamperedA ''privateKey'' = Inr (JStr ''0xffff'') \<and>
   record_phrase sample_rt sample_store ''./wallets'' (''0xAAA'' @ ''.json'') = Some (JStr ''able acid also'') \<and>
   fromPhrase sample_sdk (JStr ''able acid also'') = Inr walletA \<and>
   privateKey walletA = ''0xa1'' \<and>
   loadWallet sample_sdk sample_rt ''0xAAA'' ''./wallets'' sample_store = (Some walletA, []) \<and>
   loadWallet sample_sdk sample_rt ''0xAAA'' ''./wallets'' tampered_store = (Some walletA, []) \<and>
   readdirSync sample_store ''./wallets'' =
     Inr [''0xAAA.json'', ''0xCCC.json'', ''0xDDD.json'', ''broken.json''] \<and>
   List.map_filter (recovered sample_sdk sample_rt sample_store ''./wallets'')
     [''0xAAA.json'', ''0xCCC.json'', ''0xDDD.json'', ''broken.json''] = [walletA, walletB] \<and>
   loadWallets sample_sdk sample_rt ''./wallets'' sample_store =
     Inr ([walletA, walletB], [(''./wallets/broken.json'', SyntaxError)]) \<and>
   loadWallets sample_sdk sample_rt ''./wallets'' tampered_store =
     Inr ([walletA, walletB], [(''./wallets/broken.json'', SyntaxError)])"
proof -
  have rel: "same_phrases sample_rt sample_store tampered_store"
    by code_simp
  have r1: "readFileSync sample_store ''./wallets/0xAAA.json'' = Inr (sample_stringify (getWalletData walletA))"
    by (simp add: readFileSync_def node_at_def valid_path_def sample_store_def)
  have r2: "readFileSync tampered_store ''./wallets/0xAAA.json'' = Inr (sample_stringify tamperedA)"
    by (simp add: readFileSync_def node_at_def valid_path_def tampered_store_def)
  have differ: "sample_stringify (getWalletData walletA) \<noteq> sample_stringify tamperedA"
    by (simp add: sample_stringify_def getWalletData_def walletA_def tamperedA_def quoted_def)
  have key: "get_prop tamperedA ''privateKey'' = Inr (JStr ''0xffff'')"
    by (simp add: tamperedA_def)
  have phrase: "record_phrase sample_rt sample_store ''./wallets'' (''0xAAA'' @ ''.json'') =
      Some (JStr ''able acid also'')"
    by code_simp
  have derived: "fromPhrase sample_sdk (JStr ''able acid also'') = Inr walletA"
    by (simp add: sample_sdk_def)
  have own: "privateKey walletA = ''0xa1''"
    by (simp add: walletA_def)
  have listing: "readdirSync sample_store ''./wallets'' =
     Inr [''0xAAA.json'', ''0xCCC.json'', ''0xDDD.json'', ''broken.json'']"
    by code_simp
  have made: "List.map_filter (recovered sample_sdk sample_rt sample_store ''./wallets'')
     [''0xAAA.json'', ''0xCCC.json'', ''0xDDD.json'', ''broken.json''] = [walletA, walletB]"
    by code_simp
  have all1: "loadWallets sample_sdk sample_rt ''./wallets'' sample_store =
     Inr ([walletA, walletB], [(''./wallets/broken.json'', SyntaxError)])"
    by code_simp
  note both = recovery_depends_on_phrase_only [OF rel, of sample_sdk "''0xAAA''" "''./wallets''"]
  note same1 = both [THEN conjunct1]
  note same2 = both [THEN conjunct2, THEN conjunct1]
  note by_phrase = both [THEN conjunct2, THEN conjunct2, THEN conjunct1, THEN spec, THEN mp, OF phrase]
  have two: "loadWallet sample_sdk sample_rt ''0xAAA'' ''./wallets'' tampered_store = (Some walletA, [])"
    using by_phrase derived by simp
  have one: "loadWallet sample_sdk sample_rt ''0xAAA'' ''./wallets'' sample_store = (Some walletA, [])"
    using same1 two by simp
  have all2: "loadWallets sample_sdk sample_rt ''./wallets'' tampered_store =
     Inr ([walletA, walletB], [(''./wallets/broken.json'', SyntaxError)])"
    using same2 all1 by simp
  show ?thesis
    by (intro conjI rel r1 r2 differ key phrase derived own one two listing made all1 all2)
qed

section \<open>The transfer\<close>

lemma transfer_request_keys:
  "get_prop (transfer_request recipientAddress amount nounce gasPrice) ''nonce'' = Inr JUndefined"
  "get_prop (transfer_request recipientAddress amount nounce gasPrice) ''nounce'' = Inr nounce"
  "get_prop (transfer_request recipientAddress amount nounce gasPrice) ''gasPrice'' = Inr gasPrice"
  by (simp_all add: transfer_request_def)

lemma thrown_run: "returned (thrown e errs n) = Inl e \<and> console_log (thrown e errs n) = []"
  by (simp add: thrown_def)

text \<open>
  Whatever the configuration, the store and the network: with an SDK that rejects
  \<open>sendTransaction\<close> on the wallets of this program, no run of \<open>testTransfer\<close> reaches
  \<open>wait\<close>; every run ends in an exception and logs no receipt.
\<close>

lemma transfer_steps_rejected:
  assumes "\<forall>tx n. \<exists>e n'. sendTransaction sdk wallet tx n = (Inl e, n')"
  shows "\<exists>e. returned (transfer_steps sdk provider walletAddress wallet recipientAddress errs n0) = Inl e \<and>
             console_log (transfer_steps sdk provider walletAddress wallet recipientAddress errs n0) = []"
proof (cases "getTransactionCount sdk provider walletAddress ''pending'' n0")
  case (Pair r1 n1)
  show ?thesis
  proof (cases r1)
    case (Inl e)
    with Pair show ?thesis by (simp add: transfer_steps_def thrown_run)
  next
    case (Inr nounce)
    note count = Pair [unfolded Inr]
    show ?thesis
    proof (cases "getFeeData sdk provider n1")
      case (Pair r2 n2)
      show ?thesis
      proof (cases r2)
        case (Inl e)
        with count Pair show ?thesis by (simp add: transfer_steps_def thrown_run)
      next
        case (Inr feeData)
        note fee = Pair [unfolded Inr]
        show ?thesis
        proof (cases "parseEther sdk ''0.1''")
          case (Inl e)
          with count fee show ?thesis by (simp add: transfer_steps_def thrown_run)
        next
          case (Inr amount)
          note amt = this
          show ?thesis
          proof (cases "get_prop feeData ''gasPrice''")
            case (Inl e)
            with count fee amt show ?thesis by (simp add: transfer_steps_def thrown_run)
          next
            case (Inr gasPrice)
            from assms obtain e n3 where
              "sendTransaction sdk wallet (transfer_request recipientAddress amount nounce gasPrice) n2 =
                 (Inl e, n3)" by blast
            with count fee amt Inr show ?thesis
              by (simp add: transfer_steps_def thrown_run)
          qed
        qed
      qed
    qed
  qed
qed

lemma testTransfer_rejected:
  assumes "\<forall>w tx n. \<exists>e n'. sendTransaction sdk w tx n = (Inl e, n')"
  shows "\<exists>e. returned (testTransfer sdk rt env fs n0) = Inl e \<and>
             console_log (testTransfer sdk rt env fs n0) = []"
proof -
  have steps: "\<exists>e. returned (transfer_steps sdk provider walletAddress wallet recipientAddress errs n0) = Inl e \<and>
      console_log (transfer_steps sdk provider walletAddress wallet recipientAddress errs n0) = []"
    for provider walletAddress wallet recipientAddress errs
    by (rule transfer_steps_rejected) (use assms in blast)
  have "(\<exists>e errs. testTransfer sdk rt env fs n0 = thrown e errs n0) \<or>
        (\<exists>provider walletAddress wallet recipientAddress errs.
           testTransfer sdk rt env fs n0 =
             transfer_steps sdk provider walletAddress wallet recipientAddress errs n0)"
    unfolding testTransfer_def Let_def
    by (simp split: prod.splits option.splits) blast
  then show ?thesis
  proof (elim disjE exE)
    fix e errs
    assume "testTransfer sdk rt env fs n0 = thrown e errs n0"
    then show ?thesis by (simp add: thrown_run)
  next
    fix provider walletAddress wallet recipientAddress errs
    assume "testTransfer sdk rt env fs n0 =
        transfer_steps sdk provider walletAddress wallet recipientAddress errs n0"
    with steps [of provider walletAddress wallet recipientAddress errs]
    show ?thesis by simp
  qed
qed

text \<open>
  C6. The claim has the request carry the count as its nonce, be submitted, and the
  receipt come back after confirmation. The source attempts each of these and misses
  two: the wallet it calls \<open>sendTransaction\<close> on is the one \<open>loadWallet\<close> returned, made
  by \<open>fromPhrase\<close> and never connected to the provider, and the count is stored in the
  request under the key \<open>nounce\<close>. In the sample world, with everything configured and
  the record in the store, the run reads the count and the fee data, builds a request
  without a \<open>nonce\<close> property, is rejected at \<open>sendTransaction\<close>, never waits and logs
  no receipt.
\<close>

theorem testTransfer_rejected_without_provider:
  "testTransfer sample_sdk sample_rt sample_env sample_store [] =
     \<lparr>returned = Inl (SdkError ''missing provider''), console_error = [], console_log = [],
      net = [(''getTransactionCount'', JArr [JStr ''0xAAA'', JStr ''pending'']),
             (''getFeeData'', JArr []),
             (''sendTransaction'',
              JObj [(''to'', JStr ''0xBBB''), (''value'', JNum 100000000000000000),
                    (''nounce'', JNum 7), (''gasLimit'', JNum 21000),
                    (''gasPrice'', JNum 1000000000)])]\<rparr> \<and>
   get_prop (JObj [(''to'', JStr ''0xBBB''), (''value'', JNum 100000000000000000),
                   (''nounce'', JNum 7), (''gasLimit'', JNum 21000),
                   (''gasPrice'', JNum 1000000000)]) ''nonce'' = Inr JUndefined"
  by code_simp

end
